theory Spec2Isabelle
  imports Main "HOL-Library.AList"
begin

section \<open>Python values and strings\<close>

text \<open>
  A Python \<open>str\<close> is modelled as a \<^typ>\<open>string\<close> whose characters are the code points
  0..255.  The values a row or a stored sample can hold are \<open>None\<close>, a \<open>str\<close> and an
  \<open>int\<close>.  Exceptions are values of \<open>error\<close>; a fallible operation returns
  \<open>error + 'a\<close> with \<open>Inl\<close> for the exception raised.
\<close>

datatype pyval = PNone | PStr string | PInt int

datatype error =
    HTTPException nat string
  | ValueError
  | TypeError
  | OverflowError
  | KeyError
  | IndexError
  | ZeroDivisionError
  | InvalidId

text \<open>\<open>str.isspace\<close> on the code points below 256: what \<open>str.strip()\<close> removes.\<close>

definition is_space :: "char \<Rightarrow> bool" where
  "is_space c = (c \<in> set [CHR 0x09, CHR 0x0A, CHR 0x0B, CHR 0x0C, CHR 0x0D,
                           CHR 0x1C, CHR 0x1D, CHR 0x1E, CHR 0x1F, CHR 0x20,
                           CHR 0x85, CHR 0xA0])"

text \<open>
  What \<open>int()\<close> and \<open>float()\<close> skip around a number: the C whitespace 0x09..0x0D and
  0x20, and the non-ASCII spaces, which the conversion to ASCII turns into blanks first.
\<close>

definition is_num_space :: "char \<Rightarrow> bool" where
  "is_num_space c = (c \<in> set [CHR 0x09, CHR 0x0A, CHR 0x0B, CHR 0x0C, CHR 0x0D, CHR 0x20,
                               CHR 0x85, CHR 0xA0])"

definition is_digit :: "char \<Rightarrow> bool" where
  "is_digit c = (c \<in> set ''0123456789'')"

definition strip_with :: "(char \<Rightarrow> bool) \<Rightarrow> string \<Rightarrow> string" where
  "strip_with p s = rev (dropWhile p (rev (dropWhile p s)))"

definition py_strip :: "string \<Rightarrow> string" where
  "py_strip s = strip_with is_space s"

definition digit_value :: "char \<Rightarrow> nat" where
  "digit_value c = of_char c - 48"

definition digit_char :: "nat \<Rightarrow> char" where
  "digit_char d = char_of (48 + d)"

fun str_nat :: "nat \<Rightarrow> string" where
  "str_nat n = (if n < 10 then [digit_char n] else str_nat (n div 10) @ [digit_char (n mod 10)])"

declare str_nat.simps [simp del]

definition str_int :: "int \<Rightarrow> string" where
  "str_int i = (if i < 0 then CHR ''-'' # str_nat (nat (- i)) else str_nat (nat i))"

text \<open>\<open>str(v)\<close>.\<close>

fun py_str :: "pyval \<Rightarrow> string" where
  "py_str PNone = ''None''"
| "py_str (PStr s) = s"
| "py_str (PInt i) = str_int i"

subsection \<open>\<open>int(s)\<close> on a string\<close>

text \<open>
  \<open>int(s)\<close>, base 10: blanks around, an optional sign, then digits in which single
  underscores may stand between two digits.  More than 4300 digits are refused (the
  interpreter's default limit for the conversion).  Everything else is a \<open>ValueError\<close>.
\<close>

fun digitpart :: "string \<Rightarrow> bool" where
  "digitpart [] = False"
| "digitpart [c] = is_digit c"
| "digitpart (c # d # cs) =
     (is_digit c \<and> (if d = CHR ''_'' then digitpart cs else digitpart (d # cs)))"

definition split_sign :: "string \<Rightarrow> bool \<times> string" where
  "split_sign s =
     (case s of
        [] \<Rightarrow> (False, [])
      | c # cs \<Rightarrow> if c = CHR ''-'' then (True, cs) else if c = CHR ''+'' then (False, cs)
                 else (False, s))"

definition digits_value :: "string \<Rightarrow> nat" where
  "digits_value ds = foldl (\<lambda>a c. 10 * a + digit_value c) 0 ds"

definition max_str_digits :: nat where
  "max_str_digits = 4300"

definition py_int :: "string \<Rightarrow> error + int" where
  "py_int s =
     (let (neg, body) = split_sign (strip_with is_num_space s);
          ds = filter is_digit body
      in if \<not> digitpart body then Inl ValueError
         else if max_str_digits < length ds then Inl ValueError
         else Inr (if neg then - int (digits_value ds) else int (digits_value ds)))"

subsection \<open>\<open>float(s)\<close> on a string\<close>

text \<open>
  \<open>float(s)\<close> first checks the underscores (each one between two digits) and drops them,
  skips the blanks around, and then reads either a decimal literal
  (\<open>[sign] digits [. [digits]] [exponent]\<close> or \<open>[sign] . digits [exponent]\<close>, the
  exponent being \<open>e\<close> or \<open>E\<close>, an optional sign and digits) or, in any letter case,
  \<open>inf\<close>, \<open>infinity\<close> or \<open>nan\<close> after an optional sign.  Everything else is a
  \<open>ValueError\<close>.
\<close>

fun underscores_ok :: "char \<Rightarrow> string \<Rightarrow> bool" where
  "underscores_ok prev [] = (prev \<noteq> CHR ''_'')"
| "underscores_ok prev (c # cs) =
     (if c = CHR ''_'' then is_digit prev \<and> underscores_ok c cs
      else (prev \<noteq> CHR ''_'' \<or> is_digit c) \<and> underscores_ok c cs)"

definition is_exponent :: "string \<Rightarrow> bool" where
  "is_exponent s =
     (case s of
        [] \<Rightarrow> True
      | c # cs \<Rightarrow> (c = CHR ''e'' \<or> c = CHR ''E'') \<and>
          (let ds = snd (split_sign cs) in ds \<noteq> [] \<and> list_all is_digit ds))"

definition is_decimal :: "string \<Rightarrow> bool" where
  "is_decimal s =
     (let body = snd (split_sign s);
          ip = takeWhile is_digit body;
          r1 = dropWhile is_digit body
      in case r1 of
           [] \<Rightarrow> ip \<noteq> []
         | c # r2 \<Rightarrow>
             if c = CHR ''.'' then
               (let fp = takeWhile is_digit r2
                in (ip \<noteq> [] \<or> fp \<noteq> []) \<and> is_exponent (dropWhile is_digit r2))
             else ip \<noteq> [] \<and> is_exponent r1)"

definition ascii_lower :: "char \<Rightarrow> char" where
  "ascii_lower c =
     (if 65 \<le> (of_char c :: nat) \<and> (of_char c :: nat) \<le> 90 then char_of (of_char c + 32 :: nat)
      else c)"

datatype float_literal = Decimal string | Infinity bool | NotANumber

definition float_literal_of :: "string \<Rightarrow> float_literal option" where
  "float_literal_of s =
     (if \<not> underscores_ok (CHR 0x00) s then None
      else
        let t = strip_with is_num_space (filter (\<lambda>c. c \<noteq> CHR ''_'') s);
            (neg, r) = split_sign t;
            l = map ascii_lower r
        in if is_decimal t then Some (Decimal t)
           else if l = ''inf'' \<or> l = ''infinity'' then Some (Infinity neg)
           else if l = ''nan'' then Some NotANumber
           else None)"

section \<open>The type inferencer\<close>

text \<open>
  \<open>infer_type\<close> of \<open>main.py\<close>.  The outer \<open>try\<close> holds the blank test and \<open>int(value)\<close>;
  any exception there leads to the inner \<open>try\<close> around \<open>float(value)\<close>, whose result is
  not used: only whether it raises.
\<close>

definition infer_type :: "string \<Rightarrow> string" where
  "infer_type v =
     (case (if py_strip v = '''' then Inr ''null''
            else case py_int v of Inl e \<Rightarrow> Inl e | Inr _ \<Rightarrow> Inr ''int'') of
        Inr t \<Rightarrow> t
      | Inl _ \<Rightarrow>
          (case float_literal_of v of
             Some _ \<Rightarrow> ''float''
           | None \<Rightarrow> ''string''))"

section \<open>Data model\<close>

text \<open>
  A row is the \<open>dict\<close> that \<open>csv.DictReader\<close> yields, or one stored in a sample: its
  items in insertion order.  \<open>AList.update\<close> is the assignment \<open>d[k] = v\<close> (in place
  for a key already there, at the end for a new one) and \<open>map_of\<close> is \<open>d.get(k)\<close>.
  The keys are strings: a record with more fields than the header, which the reader
  files as a list under the key \<open>None\<close>, is outside this model.
\<close>

type_synonym row = "(string \<times> pyval) list"

record column =
  col_name :: string
  col_type :: string

record dataset_doc =
  ds_name :: string
  ds_columns :: "column list"
  ds_sample :: "row list"
  ds_row_count :: nat

record insight_doc =
  in_dataset_id :: string
  in_summary :: string
  in_details :: "string list"

text \<open>\<open>CreateChart\<close> of \<open>main.py\<close>, which \<open>model_dump()\<close> turns into the stored document.\<close>

record chart_doc =
  ch_dataset_id :: string
  ch_title :: string
  ch_chart_type :: string
  ch_x :: string
  ch_y :: "string option"
  ch_agg :: "string option"
  ch_options :: "(string \<times> pyval) list"

datatype document = DatasetDoc dataset_doc | InsightDoc insight_doc | ChartDoc chart_doc

section \<open>The document store\<close>

text \<open>
  An object id is its 12 bytes.  \<open>ObjectId(s)\<close> of \<open>bson\<close> accepts a string of 24
  characters that \<open>bytes.fromhex\<close> reads (pairs of hexadecimal digits, with C whitespace
  allowed between the pairs) and raises \<open>InvalidId\<close> for every other string;
  \<open>str(oid)\<close> is the lower-case hexadecimal form.
\<close>

type_synonym oid = "nat list"

definition hex_value :: "char \<Rightarrow> nat option" where
  "hex_value c =
     (let n = (of_char c :: nat)
      in if 48 \<le> n \<and> n \<le> 57 then Some (n - 48)
         else if 97 \<le> n \<and> n \<le> 102 then Some (n - 87)
         else if 65 \<le> n \<and> n \<le> 70 then Some (n - 55)
         else None)"

definition is_c_space :: "char \<Rightarrow> bool" where
  "is_c_space c = (c \<in> set [CHR 0x09, CHR 0x0A, CHR 0x0B, CHR 0x0C, CHR 0x0D, CHR 0x20])"

fun bytes_fromhex :: "string \<Rightarrow> error + nat list" where
  "bytes_fromhex [] = Inr []"
| "bytes_fromhex [c] = (if is_c_space c then Inr [] else Inl ValueError)"
| "bytes_fromhex (c # d # cs) =
     (if is_c_space c then bytes_fromhex (d # cs)
      else case (hex_value c, hex_value d) of
             (Some hi, Some lo) \<Rightarrow>
               (case bytes_fromhex cs of
                  Inl e \<Rightarrow> Inl e
                | Inr bs \<Rightarrow> Inr ((16 * hi + lo) # bs))
           | _ \<Rightarrow> Inl ValueError)"

definition ObjectId :: "string \<Rightarrow> error + oid" where
  "ObjectId s =
     (if length s = 24 then
        (case bytes_fromhex s of Inl _ \<Rightarrow> Inl InvalidId | Inr bs \<Rightarrow> Inr bs)
      else Inl InvalidId)"

definition hex_digit :: "nat \<Rightarrow> char" where
  "hex_digit d = (if d < 10 then char_of (48 + d) else char_of (87 + d))"

definition str_oid :: "oid \<Rightarrow> string" where
  "str_oid bs = concat (map (\<lambda>b. [hex_digit (b div 16), hex_digit (b mod 16)]) bs)"

text \<open>
  The database maps a collection name to its documents, each with its \<open>_id\<close>, in
  insertion order; \<open>db is None\<close> is \<open>None\<close>.
\<close>

type_synonym database = "string \<Rightarrow> (oid \<times> document) list"

text \<open>\<open>db[collection].find_one({"_id": oid})\<close>: the first document with that id.\<close>

definition find_one :: "database \<Rightarrow> string \<Rightarrow> oid \<Rightarrow> (oid \<times> document) option" where
  "find_one db collection_name i =
     (case map_of (db collection_name) i of None \<Rightarrow> None | Some d \<Rightarrow> Some (i, d))"

text \<open>
  Modelled from the spec: \<open>create_document\<close> of the module \<open>database\<close>, which is not
  among the sources.  The spec gives it as \<open>create(collection, doc) -> id\<close>: the document
  is added to the named collection and the string form of its new identifier is
  returned.  The identifier the store generates is the argument \<open>new_id\<close>.
\<close>

definition create_document :: "database \<Rightarrow> oid \<Rightarrow> string \<Rightarrow> document \<Rightarrow> string \<times> database" where
  "create_document db new_id collection_name data =
     (str_oid new_id, db(collection_name := db collection_name @ [(new_id, data)]))"

text \<open>
  \<open>serialize_doc\<close>: the copy of a stored document in which \<open>_id\<close> is replaced by
  \<open>id\<close>, its string form.  A response \<open>{"id": i, **doc}\<close> is the pair of \<open>i\<close> and
  the document.
\<close>

type_synonym response = "string \<times> document"

definition serialize_doc :: "oid \<times> document \<Rightarrow> response" where
  "serialize_doc d = (str_oid (fst d), snd d)"

section \<open>The schema and sample extractor\<close>

text \<open>
  The loop of \<open>upload_dataset\<close>.  For each cell, \<open>tally_cell\<close> is the body of the
  inner loop: infer the label, create the tally of a new key, and add one to the count of
  the label (a \<open>KeyError\<close> if the tally had no such label).
\<close>

type_synonym counts = "(string \<times> nat) list"

definition new_counts :: counts where
  "new_counts = [(''int'', 0), (''float'', 0), (''string'', 0), (''null'', 0)]"

definition tally_cell ::
  "(string \<times> counts) list \<Rightarrow> string \<times> pyval \<Rightarrow> error + (string \<times> counts) list" where
  "tally_cell type_counts kv =
     (let k = fst kv; v = snd kv;
          t = infer_type (if v \<noteq> PNone then py_str v else '''');
          tc = (if map_of type_counts k = None then AList.update k new_counts type_counts
                else type_counts)
      in case map_of tc k of
           None \<Rightarrow> Inl KeyError
         | Some c \<Rightarrow>
             (case map_of c t of
                None \<Rightarrow> Inl KeyError
              | Some n \<Rightarrow> Inr (AList.update k (AList.update t (n + 1) c) tc)))"

fun tally_row :: "(string \<times> counts) list \<Rightarrow> row \<Rightarrow> error + (string \<times> counts) list" where
  "tally_row type_counts [] = Inr type_counts"
| "tally_row type_counts (kv # kvs) =
     (case tally_cell type_counts kv of
        Inl e \<Rightarrow> Inl e
      | Inr tc \<Rightarrow> tally_row tc kvs)"

definition max_preview :: nat where
  "max_preview = 100"

text \<open>
  The outer loop over the reader, on the state \<open>(rows, total, type_counts)\<close>; the
  variable \<open>total\<close> is written \<open>tot\<close>.
\<close>

fun scan_rows ::
  "row list \<times> nat \<times> (string \<times> counts) list \<Rightarrow> row list \<Rightarrow>
   error + (row list \<times> nat \<times> (string \<times> counts) list)" where
  "scan_rows st [] = Inr st"
| "scan_rows (rows, tot, type_counts) (r # reader) =
     (case tally_row type_counts r of
        Inl e \<Rightarrow> Inl e
      | Inr tc \<Rightarrow>
          scan_rows (if length rows < max_preview then rows @ [r] else rows, tot + 1, tc)
            reader)"

text \<open>
  \<open>max(items, key=lambda x: x[1])\<close>: the first item whose count no other exceeds, and
  a \<open>ValueError\<close> on no item at all.
\<close>

definition py_max_count :: "(string \<times> nat) list \<Rightarrow> error + string \<times> nat" where
  "py_max_count items =
     (case items of
        [] \<Rightarrow> Inl ValueError
      | i # rest \<Rightarrow> Inr (foldl (\<lambda>best j. if snd best < snd j then j else best) i rest))"

text \<open>The second loop: the winning label of every tally, appended to \<open>columns_meta\<close>.\<close>

fun build_columns :: "column list \<Rightarrow> (string \<times> counts) list \<Rightarrow> error + column list" where
  "build_columns columns_meta [] = Inr columns_meta"
| "build_columns columns_meta ((col, cnts) # rest) =
     (case py_max_count (filter (\<lambda>kv. fst kv \<noteq> ''null'') cnts) of
        Inl e \<Rightarrow> Inl e
      | Inr best \<Rightarrow>
          build_columns (columns_meta @ [\<lparr>col_name = col, col_type = fst best\<rparr>]) rest)"

definition py_lower :: "char \<Rightarrow> char" where
  "py_lower c =
     (let n = (of_char c :: nat)
      in if (65 \<le> n \<and> n \<le> 90) \<or> (192 \<le> n \<and> n \<le> 222 \<and> n \<noteq> 215) then char_of (n + 32)
         else c)"

definition endswith :: "string \<Rightarrow> string \<Rightarrow> bool" where
  "endswith s suffix =
     (length suffix \<le> length s \<and> drop (length s - length suffix) s = suffix)"

text \<open>\<open>name or file.filename\<close>: the file's name stands in for a missing or empty name.\<close>

definition display_name :: "string option \<Rightarrow> string \<Rightarrow> string" where
  "display_name name filename =
     (case name of None \<Rightarrow> filename | Some n \<Rightarrow> if n = '''' then filename else n)"

text \<open>
  \<open>upload_dataset\<close>.  Its inputs are the database (or \<open>None\<close>), whether
  \<open>multipart\<close> can be imported, the identifier the store will generate, the file's
  name, the optional display name and the rows that \<open>csv.DictReader\<close> yields from the
  file's content.  It returns the response or the exception raised, and the database
  afterwards.
\<close>

definition upload_dataset ::
  "database option \<Rightarrow> bool \<Rightarrow> oid \<Rightarrow> string \<Rightarrow> string option \<Rightarrow> row list \<Rightarrow>
   (error + response) \<times> database option" where
  "upload_dataset db multipart new_id filename name reader =
     (if \<not> endswith (map py_lower filename) ''.csv'' then
        (Inl (HTTPException 400 ''Only CSV files are supported''), db)
      else case db of
        None \<Rightarrow>
          (Inl (HTTPException 500
             ''Database not configured. Set DATABASE_URL and DATABASE_NAME.''), db)
      | Some d \<Rightarrow>
          if \<not> multipart then
            (Inl (HTTPException 500
               ''Missing dependency: python-multipart. Please add it to requirements.txt''), db)
          else
            (case scan_rows ([], 0, []) reader of
               Inl e \<Rightarrow> (Inl e, db)
             | Inr (rows, tot, type_counts) \<Rightarrow>
                 if tot = 0 then
                   (Inl (HTTPException 400 ''Empty CSV or failed to parse''), db)
                 else
                   (case build_columns [] type_counts of
                      Inl e \<Rightarrow> (Inl e, db)
                    | Inr columns_meta \<Rightarrow>
                        (let dataset_doc =
                               \<lparr>ds_name = display_name name filename,
                                ds_columns = columns_meta,
                                ds_sample = rows,
                                ds_row_count = tot\<rparr>;
                             (i, d') = create_document d new_id ''dataset'' (DatasetDoc dataset_doc)
                         in (Inr (i, DatasetDoc dataset_doc), Some d')))))"

subsection \<open>Notions used to state the extractor's properties\<close>

text \<open>The label a cell votes for: \<open>infer_type(str(v) if v is not None else "")\<close>.\<close>

definition cell_label :: "pyval \<Rightarrow> string" where
  "cell_label v = infer_type (if v \<noteq> PNone then py_str v else '''')"

text \<open>A well-formed table of tallies: one tally per key, each with the four labels.\<close>

definition tally_ok :: "(string \<times> counts) list \<Rightarrow> bool" where
  "tally_ok tc =
     (distinct (map fst tc) \<and> list_all (\<lambda>kc. map fst (snd kc) = map fst new_counts) tc)"

text \<open>The tally of key \<open>k\<close>, if there is one, has votes for \<open>null\<close> only.\<close>

definition null_only :: "string \<Rightarrow> (string \<times> counts) list \<Rightarrow> bool" where
  "null_only k tc =
     (\<forall>c. (k, c) \<in> set tc \<longrightarrow>
        (\<exists>n. c = [(''int'', 0), (''float'', 0), (''string'', 0), (''null'', n)]))"

section \<open>Looking up a dataset and saving a chart\<close>

text \<open>
  \<open>get_dataset\<close>.  Its inputs are the database (or \<open>None\<close>), whether \<open>bson\<close> could be
  imported (\<open>ObjectId is not None\<close>) and the id string of the path.  \<open>ObjectId(dataset_id)\<close>
  may raise \<open>InvalidId\<close>, which nothing catches.
\<close>

definition get_dataset :: "database option \<Rightarrow> bool \<Rightarrow> string \<Rightarrow> error + response" where
  "get_dataset db bson dataset_id =
     (case db of
        None \<Rightarrow> Inl (HTTPException 500 ''Database not configured'')
      | Some d \<Rightarrow>
          if \<not> bson then
            Inl (HTTPException 500 ''Missing bson (from pymongo). Ensure pymongo is installed.'')
          else
            (case ObjectId dataset_id of
               Inl e \<Rightarrow> Inl e
             | Inr i \<Rightarrow>
                 (case find_one d ''dataset'' i of
                    None \<Rightarrow> Inl (HTTPException 404 ''Dataset not found'')
                  | Some doc \<Rightarrow> Inr (serialize_doc doc))))"

text \<open>
  \<open>save_chart\<close>.  The payload is the validated \<open>CreateChart\<close>; \<open>new_id\<close> is the
  identifier the store will generate.
\<close>

definition save_chart ::
  "database option \<Rightarrow> bool \<Rightarrow> oid \<Rightarrow> chart_doc \<Rightarrow> (error + response) \<times> database option" where
  "save_chart db bson new_id payload =
     (case db of
        None \<Rightarrow> (Inl (HTTPException 500 ''Database not configured''), db)
      | Some d \<Rightarrow>
          if \<not> bson then
            (Inl (HTTPException 500
               ''Missing bson (from pymongo). Ensure pymongo is installed.''), db)
          else
            (case ObjectId (ch_dataset_id payload) of
               Inl e \<Rightarrow> (Inl e, db)
             | Inr i \<Rightarrow>
                 (case find_one d ''dataset'' i of
                    None \<Rightarrow> (Inl (HTTPException 400 ''Related dataset not found''), db)
                  | Some _ \<Rightarrow>
                      (let chart_doc = payload;
                           (chart_id, d') = create_document d new_id ''chart'' (ChartDoc chart_doc)
                       in (Inr (chart_id, ChartDoc chart_doc), Some d')))))"

section \<open>Floating-point values\<close>

text \<open>
  A Python \<open>float\<close> is a finite double, an infinity or a NaN.  What happens among the
  special values is written out.  The arithmetic of the finite doubles (rounding a
  literal or an integer, adding, dividing, comparing, printing with two decimals) is not
  modelled: it is the parameter \<open>ops\<close>, over an arbitrary type \<open>'f\<close> of finite doubles.
\<close>

datatype 'f pyfloat = Finite 'f | PosInf | NegInf | NaN

record 'f float_ops =
  fl_from_decimal :: "string \<Rightarrow> 'f pyfloat"
  fl_from_int :: "int \<Rightarrow> 'f option"
  fl_zero :: 'f
  fl_add :: "'f \<Rightarrow> 'f \<Rightarrow> 'f pyfloat"
  fl_sum :: "'f list \<Rightarrow> 'f pyfloat"
  fl_div :: "'f \<Rightarrow> nat \<Rightarrow> 'f"
  fl_less :: "'f \<Rightarrow> 'f \<Rightarrow> bool"
  fl_fixed2 :: "'f \<Rightarrow> string"

text \<open>
  \<open>fl_from_decimal\<close> is the value of a decimal literal (an infinity when it is too large),
  \<open>fl_from_int\<close> the conversion of an \<open>int\<close> (\<open>None\<close> when it is too large: an
  \<open>OverflowError\<close>), \<open>fl_add\<close> the sum of two finite doubles (an infinity on overflow),
  \<open>fl_sum\<close> what \<open>sum\<close> returns on finite doubles only, \<open>fl_div\<close> the division
  of a finite double by a positive count, \<open>fl_less\<close> the order and \<open>fl_fixed2\<close> the format
  \<open>.2f\<close> of a finite double.

  \<open>float(v)\<close>: a \<open>TypeError\<close> on \<open>None\<close>, a \<open>ValueError\<close> on a string that is no
  float literal.
\<close>

definition py_float :: "'f float_ops \<Rightarrow> pyval \<Rightarrow> error + 'f pyfloat" where
  "py_float ops v =
     (case v of
        PNone \<Rightarrow> Inl TypeError
      | PStr s \<Rightarrow>
          (case float_literal_of s of
             None \<Rightarrow> Inl ValueError
           | Some (Decimal t) \<Rightarrow> Inr (fl_from_decimal ops t)
           | Some (Infinity neg) \<Rightarrow> Inr (if neg then NegInf else PosInf)
           | Some NotANumber \<Rightarrow> Inr NaN)
      | PInt i \<Rightarrow>
          (case fl_from_int ops i of
             None \<Rightarrow> Inl OverflowError
           | Some f \<Rightarrow> Inr (Finite f)))"

text \<open>\<open>a < b\<close> on floats: false whenever a NaN is involved.\<close>

fun float_less :: "'f float_ops \<Rightarrow> 'f pyfloat \<Rightarrow> 'f pyfloat \<Rightarrow> bool" where
  "float_less ops NaN b = False"
| "float_less ops a NaN = False"
| "float_less ops PosInf b = False"
| "float_less ops a NegInf = False"
| "float_less ops NegInf b = True"
| "float_less ops (Finite a) PosInf = True"
| "float_less ops (Finite a) (Finite b) = fl_less ops a b"

text \<open>\<open>a + b\<close> on floats.\<close>

fun float_add :: "'f float_ops \<Rightarrow> 'f pyfloat \<Rightarrow> 'f pyfloat \<Rightarrow> 'f pyfloat" where
  "float_add ops NaN b = NaN"
| "float_add ops a NaN = NaN"
| "float_add ops PosInf NegInf = NaN"
| "float_add ops NegInf PosInf = NaN"
| "float_add ops PosInf b = PosInf"
| "float_add ops NegInf b = NegInf"
| "float_add ops (Finite a) PosInf = PosInf"
| "float_add ops (Finite a) NegInf = NegInf"
| "float_add ops (Finite a) (Finite b) = fl_add ops a b"

text \<open>
  \<open>sum(vals)\<close>: the sum from the left, starting at fl_zero.  On finite doubles only, newer
  interpreters correct the rounding of that sum; this case is left to \<open>fl_sum\<close>.
\<close>

definition py_sum :: "'f float_ops \<Rightarrow> 'f pyfloat list \<Rightarrow> 'f pyfloat" where
  "py_sum ops vals =
     (if list_all (\<lambda>v. case v of Finite _ \<Rightarrow> True | _ \<Rightarrow> False) vals
      then fl_sum ops (concat (map (\<lambda>v. case v of Finite f \<Rightarrow> [f] | _ \<Rightarrow> []) vals))
      else foldl (float_add ops) (Finite (fl_zero ops)) vals)"

text \<open>\<open>s / n\<close> for a float and a count.\<close>

definition float_div :: "'f float_ops \<Rightarrow> 'f pyfloat \<Rightarrow> nat \<Rightarrow> error + 'f pyfloat" where
  "float_div ops s n =
     (if n = 0 then Inl ZeroDivisionError
      else Inr (case s of Finite a \<Rightarrow> Finite (fl_div ops a n) | other \<Rightarrow> other))"

text \<open>
  \<open>min(vals)\<close> and \<open>max(vals)\<close>: the first item is kept until a later one is smaller
  (larger); a \<open>ValueError\<close> on the empty list.
\<close>

definition py_min :: "'f float_ops \<Rightarrow> 'f pyfloat list \<Rightarrow> error + 'f pyfloat" where
  "py_min ops vals =
     (case vals of
        [] \<Rightarrow> Inl ValueError
      | v # rest \<Rightarrow> Inr (foldl (\<lambda>m w. if float_less ops w m then w else m) v rest))"

definition py_max :: "'f float_ops \<Rightarrow> 'f pyfloat list \<Rightarrow> error + 'f pyfloat" where
  "py_max ops vals =
     (case vals of
        [] \<Rightarrow> Inl ValueError
      | v # rest \<Rightarrow> Inr (foldl (\<lambda>m w. if float_less ops m w then w else m) v rest))"

text \<open>The format \<open>.2f\<close>.\<close>

definition format_2f :: "'f float_ops \<Rightarrow> 'f pyfloat \<Rightarrow> string" where
  "format_2f ops v =
     (case v of
        Finite a \<Rightarrow> fl_fixed2 ops a
      | PosInf \<Rightarrow> ''inf''
      | NegInf \<Rightarrow> ''-inf''
      | NaN \<Rightarrow> ''nan'')"

section \<open>The insight engine\<close>

text \<open>\<open>r.get(col)\<close>.\<close>

definition dict_get :: "row \<Rightarrow> string \<Rightarrow> pyval" where
  "dict_get r col = (case map_of r col of None \<Rightarrow> PNone | Some v \<Rightarrow> v)"

text \<open>The inner loop over the sample for a numeric column, on the list \<open>vals\<close>.\<close>

fun numeric_values :: "'f float_ops \<Rightarrow> string \<Rightarrow> 'f pyfloat list \<Rightarrow> row list \<Rightarrow> 'f pyfloat list" where
  "numeric_values ops col vals [] = vals"
| "numeric_values ops col vals (r # rs) =
     (let v = dict_get r col
      in if v = PNone \<or> py_strip (py_str v) = '''' then numeric_values ops col vals rs
         else case py_float ops v of
                Inl _ \<Rightarrow> numeric_values ops col vals rs
              | Inr f \<Rightarrow> numeric_values ops col (vals @ [f]) rs)"

text \<open>The loop over the numeric columns, on the list \<open>details\<close>.\<close>

fun numeric_details ::
  "'f float_ops \<Rightarrow> row list \<Rightarrow> string list \<Rightarrow> string list \<Rightarrow> error + string list" where
  "numeric_details ops sample details [] = Inr details"
| "numeric_details ops sample details (col # cols) =
     (let vals = numeric_values ops col [] sample
      in if vals \<noteq> [] then
           (case py_min ops vals of
              Inl e \<Rightarrow> Inl e
            | Inr mn \<Rightarrow>
                (case py_max ops vals of
                   Inl e \<Rightarrow> Inl e
                 | Inr mx \<Rightarrow>
                     (case float_div ops (py_sum ops vals) (length vals) of
                        Inl e \<Rightarrow> Inl e
                      | Inr avg \<Rightarrow>
                          numeric_details ops sample
                            (details @
                               [col @ '': avg '' @ format_2f ops avg @ '', min '' @
                                format_2f ops mn @ '', max '' @ format_2f ops mx @
                                '' based on sample''])
                            cols)))
         else numeric_details ops sample details cols)"

text \<open>
  \<open>Counter(items)\<close> counts the items one by one: a dictionary from each value to its
  count, in the order in which the values first occur.
\<close>

definition counter_add :: "(string \<times> nat) list \<Rightarrow> string \<Rightarrow> (string \<times> nat) list" where
  "counter_add mapping elem =
     AList.update elem ((case map_of mapping elem of None \<Rightarrow> 0 | Some n \<Rightarrow> n) + 1) mapping"

definition Counter :: "string list \<Rightarrow> (string \<times> nat) list" where
  "Counter items = foldl counter_add [] items"

text \<open>
  \<open>freq.most_common(1)\<close>: \<open>heapq.nlargest(1, items, key=count)\<close>, which is the list
  of the \<open>max\<close> of the items by count, or the empty list.
\<close>

definition most_common_1 :: "(string \<times> nat) list \<Rightarrow> (string \<times> nat) list" where
  "most_common_1 freq =
     (case freq of
        [] \<Rightarrow> []
      | i # rest \<Rightarrow> [foldl (\<lambda>best j. if snd best < snd j then j else best) i rest])"

text \<open>\<open>[str(r.get(col)) for r in sample if r.get(col) not in (None, "")]\<close>.\<close>

definition categorical_values :: "string \<Rightarrow> row list \<Rightarrow> string list" where
  "categorical_values col sample =
     map (\<lambda>r. py_str (dict_get r col))
       (filter (\<lambda>r. dict_get r col \<notin> set [PNone, PStr '''']) sample)"

text \<open>The loop over the categorical columns, on the list \<open>details\<close>.\<close>

fun categorical_details :: "row list \<Rightarrow> string list \<Rightarrow> string list \<Rightarrow> error + string list" where
  "categorical_details sample details [] = Inr details"
| "categorical_details sample details (col # cols) =
     (let freq = Counter (categorical_values col sample)
      in if freq \<noteq> [] then
           (case most_common_1 freq of
              [] \<Rightarrow> Inl IndexError
            | (top_value, cnt) # _ \<Rightarrow>
                categorical_details sample
                  (details @
                     [col @ '': most frequent value is '' @ [CHR 0x27] @ top_value @ [CHR 0x27] @
                      '' ('' @ str_nat cnt @ '' occurrences in sample)''])
                  cols)
         else categorical_details sample details cols)"

text \<open>\<open>doc.get("sample", [])\<close> and \<open>doc.get("columns", [])\<close> on a stored document.\<close>

definition doc_sample :: "document \<Rightarrow> row list" where
  "doc_sample doc = (case doc of DatasetDoc ds \<Rightarrow> ds_sample ds | _ \<Rightarrow> [])"

definition doc_columns :: "document \<Rightarrow> column list" where
  "doc_columns doc = (case doc of DatasetDoc ds \<Rightarrow> ds_columns ds | _ \<Rightarrow> [])"

text \<open>
  \<open>generate_insights\<close>.  Its inputs are the float arithmetic, the database (or
  \<open>None\<close>), whether \<open>bson\<close> could be imported, the identifier the store will generate
  and the id string of the path.
\<close>

definition generate_insights ::
  "'f float_ops \<Rightarrow> database option \<Rightarrow> bool \<Rightarrow> oid \<Rightarrow> string \<Rightarrow>
   (error + response) \<times> database option" where
  "generate_insights ops db bson new_id dataset_id =
     (case db of
        None \<Rightarrow> (Inl (HTTPException 500 ''Database not configured''), db)
      | Some d \<Rightarrow>
          if \<not> bson then
            (Inl (HTTPException 500
               ''Missing bson (from pymongo). Ensure pymongo is installed.''), db)
          else
            (case ObjectId dataset_id of
               Inl e \<Rightarrow> (Inl e, db)
             | Inr i \<Rightarrow>
                 (case find_one d ''dataset'' i of
                    None \<Rightarrow> (Inl (HTTPException 404 ''Dataset not found''), db)
                  | Some doc \<Rightarrow>
                      (let smp = doc_sample (snd doc);
                           cols = doc_columns (snd doc);
                           numeric_cols =
                             map col_name (filter (\<lambda>c. col_type c \<in> set [''int'', ''float'']) cols);
                           categorical_cols =
                             map col_name (filter (\<lambda>c. col_type c = ''string'') cols)
                       in case numeric_details ops smp [] numeric_cols of
                            Inl e \<Rightarrow> (Inl e, db)
                          | Inr details1 \<Rightarrow>
                              (case categorical_details smp details1 categorical_cols of
                                 Inl e \<Rightarrow> (Inl e, db)
                               | Inr details2 \<Rightarrow>
                                   (let insight_doc =
                                          \<lparr>in_dataset_id = dataset_id,
                                           in_summary =
                                             ''Quick AI-style summary based on your data sample.'',
                                           in_details = details2\<rparr>;
                                        (insight_id, d') =
                                          create_document d new_id ''insight''
                                            (InsightDoc insight_doc)
                                    in (Inr (insight_id, InsightDoc insight_doc), Some d')))))))"

subsection \<open>Notions used to state the engine's properties\<close>

text \<open>
  The values of a column that are present, not blank and parse as a float, in the order
  of the sample.
\<close>

definition parsed_values :: "'f float_ops \<Rightarrow> string \<Rightarrow> row list \<Rightarrow> 'f pyfloat list" where
  "parsed_values ops col sample =
     concat (map (\<lambda>r. let v = dict_get r col
                       in if v = PNone \<or> py_strip (py_str v) = '''' then []
                          else case py_float ops v of Inl _ \<Rightarrow> [] | Inr f \<Rightarrow> [f]) sample)"

text \<open>The average, the smallest and the largest of a non-empty list of floats.\<close>

definition average :: "'f float_ops \<Rightarrow> 'f pyfloat list \<Rightarrow> 'f pyfloat" where
  "average ops vals =
     (case py_sum ops vals of
        Finite a \<Rightarrow> Finite (fl_div ops a (length vals))
      | other \<Rightarrow> other)"

definition smallest :: "'f float_ops \<Rightarrow> 'f pyfloat \<Rightarrow> 'f pyfloat list \<Rightarrow> 'f pyfloat" where
  "smallest ops v rest = foldl (\<lambda>m w. if float_less ops w m then w else m) v rest"

definition largest :: "'f float_ops \<Rightarrow> 'f pyfloat \<Rightarrow> 'f pyfloat list \<Rightarrow> 'f pyfloat" where
  "largest ops v rest = foldl (\<lambda>m w. if float_less ops m w then w else m) v rest"

text \<open>The detail lines of a numeric column whose parsed values are given: one or none.\<close>

fun numeric_line :: "'f float_ops \<Rightarrow> string \<Rightarrow> 'f pyfloat list \<Rightarrow> string list" where
  "numeric_line ops col [] = []"
| "numeric_line ops col (v # rest) =
     [col @ '': avg '' @ format_2f ops (average ops (v # rest)) @
      '', min '' @ format_2f ops (smallest ops v rest) @
      '', max '' @ format_2f ops (largest ops v rest) @ '' based on sample'']"

text \<open>
  The most frequent value of a list: the first one, in the order of the list, than
  which no value occurs more often.
\<close>

definition most_frequent :: "string list \<Rightarrow> string option" where
  "most_frequent vals =
     find (\<lambda>v. list_all (\<lambda>w. count_list vals w \<le> count_list vals v) vals) vals"

text \<open>The detail lines of a categorical column whose counted values are given.\<close>

definition categorical_line :: "string \<Rightarrow> string list \<Rightarrow> string list" where
  "categorical_line col vals =
     (case most_frequent vals of
        None \<Rightarrow> []
      | Some v \<Rightarrow>
          [col @ '': most frequent value is '' @ [CHR 0x27] @ v @ [CHR 0x27] @
           '' ('' @ str_nat (count_list vals v) @ '' occurrences in sample)''])"

text \<open>The distinct items of a list in the order in which they first occur.\<close>

definition first_occ :: "'a list \<Rightarrow> 'a list" where
  "first_occ xs = rev (remdups (rev xs))"

text \<open>A client error is an \<open>HTTPException\<close> with a status from 400 to 499.\<close>

definition is_client_error :: "error \<Rightarrow> bool" where
  "is_client_error e = (case e of HTTPException status _ \<Rightarrow> 400 \<le> status \<and> status < 500 | _ \<Rightarrow> False)"

section \<open>Properties of the type inferencer\<close>

lemma infer_type_cases:
  "infer_type v = ''null'' \<or> infer_type v = ''int'' \<or> infer_type v = ''float'' \<or>
   infer_type v = ''string''"
  by (simp add: infer_type_def split: sum.splits option.splits)

text \<open>
  C2: the type inferencer is total: every raw string gets one of the four labels
  \<open>null\<close>, \<open>int\<close>, \<open>float\<close>, \<open>string\<close> (both conversions may raise, and every
  exception is caught), and the empty string and a blank are \<open>null\<close>, \<open>42\<close> and \<open>-3\<close>
  are \<open>int\<close>, \<open>42.5\<close> and \<open>1e10\<close> are \<open>float\<close>, \<open>abc\<close> is \<open>string\<close>.
\<close>

theorem infer_type_total:
  "infer_type v \<in> {''null'', ''int'', ''float'', ''string''} \<and>
   infer_type '''' = ''null'' \<and> infer_type '' '' = ''null'' \<and>
   infer_type ''42'' = ''int'' \<and> infer_type ''42.5'' = ''float'' \<and>
   infer_type ''-3'' = ''int'' \<and> infer_type ''abc'' = ''string'' \<and>
   infer_type ''1e10'' = ''float''"
proof -
  have total: "infer_type v \<in> {''null'', ''int'', ''float'', ''string''}"
    using infer_type_cases [of v] by blast
  have e1: "infer_type '''' = ''null''" by code_simp
  have e2: "infer_type '' '' = ''null''" by code_simp
  have e3: "infer_type ''42'' = ''int''" by code_simp
  have e4: "infer_type ''42.5'' = ''float''" by code_simp
  have e5: "infer_type ''-3'' = ''int''" by code_simp
  have e6: "infer_type ''abc'' = ''string''" by code_simp
  have e7: "infer_type ''1e10'' = ''float''" by code_simp
  from total e1 e2 e3 e4 e5 e6 e7 show ?thesis by blast
qed

section \<open>Properties of the extractor\<close>

lemma set_update_subset: "set (AList.update k v al) \<subseteq> insert (k, v) (set al)"
  by (induction al) auto

lemma label_in_counts:
  assumes "map fst c = map fst new_counts"
  shows "\<exists>n. map_of c (infer_type v) = Some n"
proof -
  have "infer_type v \<in> set (map fst c)"
    using infer_type_cases [of v] assms by (auto simp: new_counts_def)
  then have "infer_type v \<in> fst ` set c" by simp
  then show ?thesis
    by (metis domD dom_map_of_conv_image_fst)
qed

lemma keys_update_count:
  "map_of c t = Some n \<Longrightarrow> map fst (AList.update t m c) = map fst c"
  by (simp add: AList.update_keys map_of_eq_None_iff [symmetric])

lemma tally_ok_update:
  assumes "tally_ok tc" "map fst c = map fst new_counts"
  shows "tally_ok (AList.update k c tc)"
proof -
  have "set (AList.update k c tc) \<subseteq> insert (k, c) (set tc)" by (rule set_update_subset)
  with assms show ?thesis
    by (auto simp: tally_ok_def AList.distinct_update list_all_iff)
qed

lemma tally_cell_ok:
  assumes "tally_ok tc"
  shows "\<exists>tc'. tally_cell tc kv = Inr tc' \<and> tally_ok tc' \<and>
           fst ` set tc' = insert (fst kv) (fst ` set tc)"
proof -
  define k where "k = fst kv"
  define t where "t = infer_type (if snd kv \<noteq> PNone then py_str (snd kv) else '''')"
  define tc1 where "tc1 = (if map_of tc k = None then AList.update k new_counts tc else tc)"
  have ok1: "tally_ok tc1"
    using assms by (simp add: tc1_def tally_ok_update)
  have keys1: "fst ` set tc1 = insert k (fst ` set tc)"
    by (auto simp: tc1_def AList.dom_update map_of_eq_None_iff)
  have "k \<in> fst ` set tc1" using keys1 by simp
  then obtain c where c: "map_of tc1 k = Some c"
    by (metis domD dom_map_of_conv_image_fst)
  then have "(k, c) \<in> set tc1" by (rule map_of_SomeD)
  with ok1 have kc: "map fst c = map fst new_counts"
    by (auto simp: tally_ok_def list_all_iff)
  then obtain n where n: "map_of c t = Some n"
    using label_in_counts unfolding t_def by blast
  have res: "tally_cell tc kv = Inr (AList.update k (AList.update t (n + 1) c) tc1)"
    using c n by (simp add: tally_cell_def Let_def k_def [symmetric] t_def [symmetric] tc1_def [symmetric])
  have "map fst (AList.update t (n + 1) c) = map fst new_counts"
    using n kc by (simp add: keys_update_count)
  then have "tally_ok (AList.update k (AList.update t (n + 1) c) tc1)"
    using ok1 by (rule tally_ok_update [rotated])
  moreover have "fst ` set (AList.update k (AList.update t (n + 1) c) tc1) = insert (fst kv) (fst ` set tc)"
    using keys1 by (auto simp: AList.dom_update k_def)
  ultimately show ?thesis using res by blast
qed

lemma tally_row_ok:
  "tally_ok tc \<Longrightarrow> \<exists>tc'. tally_row tc r = Inr tc' \<and> tally_ok tc' \<and>
           fst ` set tc' = fst ` set r \<union> fst ` set tc"
proof (induction r arbitrary: tc)
  case Nil
  then show ?case by simp
next
  case (Cons kv kvs)
  from tally_cell_ok [OF Cons.prems, of kv] obtain tc1 where
    1: "tally_cell tc kv = Inr tc1" "tally_ok tc1" "fst ` set tc1 = insert (fst kv) (fst ` set tc)"
    by blast
  from Cons.IH [OF 1(2)] obtain tc2 where
    2: "tally_row tc1 kvs = Inr tc2" "tally_ok tc2" "fst ` set tc2 = fst ` set kvs \<union> fst ` set tc1"
    by blast
  from 1 2 show ?case by auto
qed

lemma scan_rows_ok:
  "tally_ok tc \<Longrightarrow> length rows \<le> max_preview \<Longrightarrow>
   \<exists>tc'. scan_rows (rows, tot, tc) reader =
            Inr (take max_preview (rows @ reader), tot + length reader, tc') \<and>
          tally_ok tc' \<and> fst ` set tc' = (\<Union>r\<in>set reader. fst ` set r) \<union> fst ` set tc"
proof (induction reader arbitrary: rows tot tc)
  case Nil
  then show ?case by simp
next
  case (Cons r reader)
  from tally_row_ok [OF Cons.prems(1), of r] obtain tc1 where
    1: "tally_row tc r = Inr tc1" "tally_ok tc1" "fst ` set tc1 = fst ` set r \<union> fst ` set tc"
    by blast
  let ?rows = "if length rows < max_preview then rows @ [r] else rows"
  have len: "length ?rows \<le> max_preview" using Cons.prems(2) by simp
  from Cons.IH [OF 1(2) len, of "tot + 1"] obtain tc2 where
    2: "scan_rows (?rows, tot + 1, tc1) reader =
          Inr (take max_preview (?rows @ reader), tot + 1 + length reader, tc2)"
       "tally_ok tc2" "fst ` set tc2 = (\<Union>r\<in>set reader. fst ` set r) \<union> fst ` set tc1"
    by blast
  have tk: "take max_preview (?rows @ reader) = take max_preview (rows @ r # reader)"
    using Cons.prems(2) by (cases "length rows < max_preview") (auto simp: take_Cons' le_less)
  from 1 2 tk show ?case by auto
qed

lemma counts_shape:
  assumes "map fst c = map fst new_counts"
  shows "\<exists>a b d e. c = [(''int'', a), (''float'', b), (''string'', d), (''null'', e)]"
proof -
  from assms obtain p1 p2 p3 p4 where c: "c = [p1, p2, p3, p4]"
    and f: "fst p1 = ''int''" "fst p2 = ''float''" "fst p3 = ''string''" "fst p4 = ''null''"
    by (auto simp: new_counts_def map_eq_Cons_conv)
  then show ?thesis
    by (cases p1, cases p2, cases p3, cases p4) auto
qed

lemma winner_choice:
  "\<exists>w. py_max_count (filter (\<lambda>kv. fst kv \<noteq> ''null'')
          [(''int'', a), (''float'', b), (''string'', d), (''null'', e)]) = Inr w \<and>
        fst w \<in> {''int'', ''float'', ''string''}"
  by (simp add: py_max_count_def)

lemma winner_all_zero:
  "py_max_count (filter (\<lambda>kv. fst kv \<noteq> ''null'')
          [(''int'', 0), (''float'', 0), (''string'', 0), (''null'', n)]) = Inr (''int'', 0)"
  by (simp add: py_max_count_def)

lemma build_columns_ok:
  "tally_ok tc \<Longrightarrow>
   \<exists>cols. build_columns acc tc = Inr (acc @ cols) \<and> map col_name cols = map fst tc \<and>
     list_all (\<lambda>c. col_type c \<in> {''int'', ''float'', ''string''}) cols \<and>
     (\<forall>k. null_only k tc \<longrightarrow> k \<in> fst ` set tc \<longrightarrow>
        \<lparr>col_name = k, col_type = ''int''\<rparr> \<in> set cols)"
proof (induction tc arbitrary: acc)
  case Nil
  then show ?case by simp
next
  case (Cons kc tc)
  obtain col c where kc: "kc = (col, c)" by (cases kc)
  from Cons.prems have ok: "tally_ok tc" and keys: "map fst c = map fst new_counts"
    and notin: "col \<notin> fst ` set tc"
    by (auto simp: tally_ok_def kc)
  from counts_shape [OF keys] obtain a b d e where
    c: "c = [(''int'', a), (''float'', b), (''string'', d), (''null'', e)]" by blast
  from winner_choice [of a b d e] obtain w where
    w: "py_max_count (filter (\<lambda>kv. fst kv \<noteq> ''null'') c) = Inr w"
       "fst w \<in> {''int'', ''float'', ''string''}"
    unfolding c by blast
  let ?acc = "acc @ [\<lparr>col_name = col, col_type = fst w\<rparr>]"
  from Cons.IH [OF ok, of ?acc] obtain cols where
    cols: "build_columns ?acc tc = Inr (?acc @ cols)" "map col_name cols = map fst tc"
      "list_all (\<lambda>c. col_type c \<in> {''int'', ''float'', ''string''}) cols"
      "\<forall>k. null_only k tc \<longrightarrow> k \<in> fst ` set tc \<longrightarrow>
          \<lparr>col_name = k, col_type = ''int''\<rparr> \<in> set cols"
    by blast
  let ?cols = "\<lparr>col_name = col, col_type = fst w\<rparr> # cols"
  have 1: "build_columns acc (kc # tc) = Inr (acc @ ?cols)"
    using w(1) cols(1) by (simp add: kc)
  have 2: "map col_name ?cols = map fst (kc # tc)"
    using cols(2) by (simp add: kc)
  have 3: "list_all (\<lambda>c. col_type c \<in> {''int'', ''float'', ''string''}) ?cols"
    using cols(3) w(2) by simp
  have 4: "\<lparr>col_name = k, col_type = ''int''\<rparr> \<in> set ?cols"
    if no: "null_only k (kc # tc)" and k: "k \<in> fst ` set (kc # tc)" for k
  proof (cases "k = col")
    case True
    with no obtain n where "c = [(''int'', 0), (''float'', 0), (''string'', 0), (''null'', n)]"
      by (auto simp: null_only_def kc)
    with w(1) winner_all_zero [of n] have "fst w = ''int''" by simp
    with True show ?thesis by simp
  next
    case False
    with k have "k \<in> fst ` set tc" by (auto simp: kc)
    moreover from no have "null_only k tc" by (auto simp: null_only_def)
    ultimately show ?thesis using cols(4) by simp
  qed
  from 1 2 3 4 show ?case by blast
qed

lemma tally_cell_null_only:
  assumes ok: "tally_ok tc" and no: "null_only k tc"
    and lab: "fst kv = k \<Longrightarrow> cell_label (snd kv) = ''null''"
    and res: "tally_cell tc kv = Inr tc'"
  shows "null_only k tc'"
proof -
  define k' where "k' = fst kv"
  define t where "t = infer_type (if snd kv \<noteq> PNone then py_str (snd kv) else [])"
  define tc1 where "tc1 = (if map_of tc k' = None then AList.update k' new_counts tc else tc)"
  have sub1: "set tc1 \<subseteq> insert (k', new_counts) (set tc)"
    using set_update_subset [of k' new_counts tc] by (auto simp: tc1_def)
  have no1: "null_only k tc1"
    using no sub1 by (fastforce simp: null_only_def new_counts_def)
  from res obtain c n where c: "map_of tc1 k' = Some c" and n: "map_of c t = Some n"
    and tc': "tc' = AList.update k' (AList.update t (n + 1) c) tc1"
    by (auto simp: tally_cell_def Let_def k'_def [symmetric] t_def [symmetric]
        tc1_def [symmetric] split: option.splits)
  have sub2: "set tc' \<subseteq> insert (k', AList.update t (n + 1) c) (set tc1)"
    unfolding tc' by (rule set_update_subset)
  show ?thesis
    unfolding null_only_def
  proof (intro allI impI)
    fix c2 assume "(k, c2) \<in> set tc'"
    with sub2 consider "(k, c2) \<in> set tc1" | "k = k'" "c2 = AList.update t (n + 1) c" by auto
    then show "\<exists>n. c2 = [(''int'', 0), (''float'', 0), (''string'', 0), (''null'', n)]"
    proof cases
      case 1
      with no1 show ?thesis by (simp add: null_only_def)
    next
      case 2
      from c have "(k', c) \<in> set tc1" by (rule map_of_SomeD)
      with no1 2 obtain m where "c = [(''int'', 0), (''float'', 0), (''string'', 0), (''null'', m)]"
        by (auto simp: null_only_def)
      moreover have "t = ''null''" using lab 2 by (simp add: t_def k'_def cell_label_def)
      ultimately show ?thesis using 2 by simp
    qed
  qed
qed

lemma tally_row_null_only:
  "tally_ok tc \<Longrightarrow> null_only k tc \<Longrightarrow>
   (\<And>v. (k, v) \<in> set r \<Longrightarrow> cell_label v = ''null'') \<Longrightarrow>
   tally_row tc r = Inr tc' \<Longrightarrow> null_only k tc'"
proof (induction r arbitrary: tc)
  case Nil
  then show ?case by simp
next
  case (Cons kv kvs)
  from tally_cell_ok [OF Cons.prems(1), of kv] obtain tc1 where
    1: "tally_cell tc kv = Inr tc1" "tally_ok tc1" by blast
  have lab: "fst kv = k \<Longrightarrow> cell_label (snd kv) = ''null''"
    using Cons.prems(3) [of "snd kv"] by (cases kv) auto
  have no1: "null_only k tc1"
    using Cons.prems(1,2) lab 1(1) by (rule tally_cell_null_only)
  have "tally_row tc1 kvs = Inr tc'" using Cons.prems(4) 1(1) by simp
  with Cons.IH [OF 1(2) no1] Cons.prems(3) show ?case by simp
qed

lemma scan_rows_null_only:
  "tally_ok tc \<Longrightarrow> null_only k tc \<Longrightarrow>
   (\<And>r v. r \<in> set reader \<Longrightarrow> (k, v) \<in> set r \<Longrightarrow> cell_label v = ''null'') \<Longrightarrow>
   scan_rows (rows, tot, tc) reader = Inr (rows', tot', tc') \<Longrightarrow> null_only k tc'"
proof (induction reader arbitrary: rows tot tc)
  case Nil
  then show ?case by simp
next
  case (Cons r reader)
  from tally_row_ok [OF Cons.prems(1), of r] obtain tc1 where
    1: "tally_row tc r = Inr tc1" "tally_ok tc1" by blast
  have lab: "\<And>v. (k, v) \<in> set r \<Longrightarrow> cell_label v = ''null''"
    using Cons.prems(3) by auto
  have no1: "null_only k tc1"
    using Cons.prems(1,2) lab 1(1) by (rule tally_row_null_only)
  have rest: "scan_rows (if length rows < max_preview then rows @ [r] else rows, tot + 1, tc1) reader
          = Inr (rows', tot', tc')"
    using Cons.prems(4) 1(1) by simp
  have lab': "\<And>r v. r \<in> set reader \<Longrightarrow> (k, v) \<in> set r \<Longrightarrow> cell_label v = ''null''"
    using Cons.prems(3) by auto
  from 1(2) no1 lab' rest show ?case by (rule Cons.IH)
qed

lemma tally_ok_Nil: "tally_ok []"
  by (simp add: tally_ok_def)

lemma upload_dataset_success:
  assumes csv: "endswith (map py_lower filename) ''.csv''" and mp: "multipart"
    and ne: "reader \<noteq> []"
  shows "\<exists>cols tc.
      scan_rows ([], 0, []) reader = Inr (take max_preview reader, length reader, tc) \<and>
      build_columns [] tc = Inr cols \<and>
      col_name ` set cols = (\<Union>r\<in>set reader. fst ` set r) \<and>
      (\<forall>k. null_only k tc \<longrightarrow> k \<in> fst ` set tc \<longrightarrow>
             \<lparr>col_name = k, col_type = ''int''\<rparr> \<in> set cols) \<and>
      upload_dataset (Some d) multipart new_id filename name reader =
        (Inr (str_oid new_id,
              DatasetDoc \<lparr>ds_name = display_name name filename, ds_columns = cols,
                 ds_sample = take max_preview reader, ds_row_count = length reader\<rparr>),
         Some (d(''dataset'' := d ''dataset'' @
           [(new_id, DatasetDoc \<lparr>ds_name = display_name name filename, ds_columns = cols,
                 ds_sample = take max_preview reader, ds_row_count = length reader\<rparr>)])))"
proof -
  from scan_rows_ok [OF tally_ok_Nil, of "[]" 0 reader] obtain tc where
    sc: "scan_rows ([], 0, []) reader = Inr (take max_preview reader, length reader, tc)"
    and ok: "tally_ok tc" and keys: "fst ` set tc = (\<Union>r\<in>set reader. fst ` set r)"
    by auto
  from build_columns_ok [OF ok, of "[]"] obtain cols where
    bc: "build_columns [] tc = Inr cols" and names: "map col_name cols = map fst tc"
    and nul: "\<forall>k. null_only k tc \<longrightarrow> k \<in> fst ` set tc \<longrightarrow>
        \<lparr>col_name = k, col_type = ''int''\<rparr> \<in> set cols"
    by auto
  have "col_name ` set cols = fst ` set tc"
    using names by (metis image_set)
  with keys have k2: "col_name ` set cols = (\<Union>r\<in>set reader. fst ` set r)" by simp
  have up: "upload_dataset (Some d) multipart new_id filename name reader =
        (Inr (str_oid new_id,
              DatasetDoc \<lparr>ds_name = display_name name filename, ds_columns = cols,
                 ds_sample = take max_preview reader, ds_row_count = length reader\<rparr>),
         Some (d(''dataset'' := d ''dataset'' @
           [(new_id, DatasetDoc \<lparr>ds_name = display_name name filename, ds_columns = cols,
                 ds_sample = take max_preview reader, ds_row_count = length reader\<rparr>)])))"
    using csv mp ne sc bc
    by (simp add: upload_dataset_def create_document_def display_name_def Let_def)
  from sc bc k2 nul up show ?thesis by blast
qed

lemma upload_dataset_failure:
  assumes "\<not> (endswith (map py_lower filename) ''.csv'' \<and> db \<noteq> None \<and> multipart \<and> reader \<noteq> [])"
  shows "\<exists>e. upload_dataset db multipart new_id filename name reader = (Inl e, db)"
  using assms by (auto simp: upload_dataset_def split: option.splits)

lemma upload_dataset_empty:
  assumes "endswith (map py_lower filename) ''.csv''" "multipart"
  shows "upload_dataset (Some d) multipart new_id filename name [] =
           (Inl (HTTPException 400 ''Empty CSV or failed to parse''), Some d)"
  using assms by (simp add: upload_dataset_def)

lemma null_only_Nil: "null_only k []"
  by (simp add: null_only_def)

lemma upload_dataset_inversion:
  assumes "upload_dataset db multipart new_id filename name reader = (Inr resp, db')"
  shows "endswith (map py_lower filename) ''.csv'' \<and> multipart \<and> reader \<noteq> [] \<and> (\<exists>d. db = Some d)"
proof (rule ccontr)
  assume "\<not> ?thesis"
  then have "\<not> (endswith (map py_lower filename) ''.csv'' \<and> db \<noteq> None \<and> multipart \<and> reader \<noteq> [])"
    by auto
  from upload_dataset_failure [OF this, of new_id name] assms show False by auto
qed

lemma csv_name: "endswith (map py_lower ''t.csv'') ''.csv''"
  by code_simp

text \<open>
  C3: whenever the upload succeeds, the stored row count is the number of rows read and
  the sample is the first \<open>min(row_count, 100)\<close> rows of the input, unchanged and in
  their order; so its length is \<open>min(row_count, 100)\<close>.
\<close>

theorem sample_is_first_rows:
  assumes "upload_dataset db multipart new_id filename name reader = (Inr (i, doc), db')"
  shows "\<exists>ds. doc = DatasetDoc ds \<and> ds_row_count ds = length reader \<and>
           ds_sample ds = take (min (ds_row_count ds) 100) reader \<and>
           length (ds_sample ds) = min (ds_row_count ds) 100"
proof -
  from upload_dataset_inversion [OF assms] obtain d where
    g: "endswith (map py_lower filename) ''.csv''" "multipart" "reader \<noteq> []" and d: "db = Some d"
    by blast
  from upload_dataset_success [OF g, of d new_id name] assms d
  obtain cols where "doc = DatasetDoc \<lparr>ds_name = display_name name filename, ds_columns = cols,
                 ds_sample = take max_preview reader, ds_row_count = length reader\<rparr>"
    by auto
  then show ?thesis by (simp add: max_preview_def min_def)
qed

theorem sample_is_first_rows_witness:
  "\<exists>ds. DatasetDoc \<lparr>ds_name = ''t.csv'',
            ds_columns = [\<lparr>col_name = ''a'', col_type = ''int''\<rparr>],
            ds_sample = replicate 100 [(''a'', PStr ''7'')], ds_row_count = 101\<rparr> = DatasetDoc ds \<and>
        ds_row_count ds = length (replicate 101 [(''a'', PStr ''7'')]) \<and>
        ds_sample ds = take (min (ds_row_count ds) 100) (replicate 101 [(''a'', PStr ''7'')]) \<and>
        length (ds_sample ds) = min (ds_row_count ds) 100"
proof -
  let ?up = "upload_dataset (Some (\<lambda>c. [])) True [0, 1, 2, 3, 4, 5, 6, 7, 8, 9, 10, 11]
               ''t.csv'' None (replicate 101 [(''a'', PStr ''7'')])"
  have "fst ?up = Inr (''000102030405060708090a0b'',
          DatasetDoc \<lparr>ds_name = ''t.csv'',
            ds_columns = [\<lparr>col_name = ''a'', col_type = ''int''\<rparr>],
            ds_sample = replicate 100 [(''a'', PStr ''7'')], ds_row_count = 101\<rparr>)"
    by code_simp
  then have "?up = (Inr (''000102030405060708090a0b'',
          DatasetDoc \<lparr>ds_name = ''t.csv'',
            ds_columns = [\<lparr>col_name = ''a'', col_type = ''int''\<rparr>],
            ds_sample = replicate 100 [(''a'', PStr ''7'')], ds_row_count = 101\<rparr>), snd ?up)"
    by (simp add: prod_eq_iff)
  then show ?thesis by (rule sample_is_first_rows)
qed

text \<open>
  C9: whenever the upload succeeds, every key of every sample row is the name of one of
  the column descriptors.
\<close>

theorem sample_keys_have_columns:
  assumes "upload_dataset db multipart new_id filename name reader = (Inr (i, DatasetDoc ds), db')"
    and "r \<in> set (ds_sample ds)" and "(k, v) \<in> set r"
  shows "k \<in> col_name ` set (ds_columns ds)"
proof -
  from upload_dataset_inversion [OF assms(1)] obtain d where
    g: "endswith (map py_lower filename) ''.csv''" "multipart" "reader \<noteq> []" and d: "db = Some d"
    by blast
  from upload_dataset_success [OF g, of d new_id name] assms(1) d
  obtain cols where cols: "col_name ` set cols = (\<Union>r\<in>set reader. fst ` set r)"
    and ds: "ds = \<lparr>ds_name = display_name name filename, ds_columns = cols,
                 ds_sample = take max_preview reader, ds_row_count = length reader\<rparr>"
    by auto
  from assms(2) ds have "r \<in> set reader" by (auto dest: in_set_takeD)
  with assms(3) have "k \<in> (\<Union>r\<in>set reader. fst ` set r)" by force
  with cols ds show ?thesis by simp
qed

theorem sample_keys_have_columns_witness:
  "''b'' \<in> col_name ` set (ds_columns
     \<lparr>ds_name = ''t.csv'',
      ds_columns = [\<lparr>col_name = ''a'', col_type = ''int''\<rparr>,
                    \<lparr>col_name = ''b'', col_type = ''string''\<rparr>],
      ds_sample = [[(''a'', PStr ''1''), (''b'', PStr ''x'')]], ds_row_count = 1\<rparr>)"
proof -
  let ?ds = "\<lparr>ds_name = ''t.csv'',
      ds_columns = [\<lparr>col_name = ''a'', col_type = ''int''\<rparr>,
                    \<lparr>col_name = ''b'', col_type = ''string''\<rparr>],
      ds_sample = [[(''a'', PStr ''1''), (''b'', PStr ''x'')]], ds_row_count = 1\<rparr>"
  let ?up = "upload_dataset (Some (\<lambda>c. [])) True [0, 1, 2, 3, 4, 5, 6, 7, 8, 9, 10, 11]
               ''t.csv'' None [[(''a'', PStr ''1''), (''b'', PStr ''x'')]]"
  have "fst ?up = Inr (''000102030405060708090a0b'', DatasetDoc ?ds)"
    by code_simp
  then have up: "?up = (Inr (''000102030405060708090a0b'', DatasetDoc ?ds), snd ?up)"
    by (simp add: prod_eq_iff)
  have r: "[(''a'', PStr ''1''), (''b'', PStr ''x'')] \<in> set (ds_sample ?ds)" by simp
  have kv: "(''b'', PStr ''x'') \<in> set [(''a'', PStr ''1''), (''b'', PStr ''x'')]" by simp
  from up r kv show ?thesis by (rule sample_keys_have_columns)
qed

text \<open>
  C4: an input without data rows never yields a dataset and leaves the database as it
  was; once the checks before the extraction have passed, the failure is the client error
  400 \<open>Empty CSV or failed to parse\<close>.  With those checks passed, every non-empty input
  is stored as a dataset whose row count is the number of rows, 1 for a single row.
\<close>

theorem empty_input_is_rejected:
  "(reader = [] \<longrightarrow>
      (\<exists>e. upload_dataset db multipart new_id filename name reader = (Inl e, db))) \<and>
   (endswith (map py_lower filename) ''.csv'' \<and> multipart \<longrightarrow>
      upload_dataset (Some d) multipart new_id filename name [] =
        (Inl (HTTPException 400 ''Empty CSV or failed to parse''), Some d) \<and>
      is_client_error (HTTPException 400 ''Empty CSV or failed to parse'') \<and>
      (reader \<noteq> [] \<longrightarrow>
         (\<exists>ds. upload_dataset (Some d) multipart new_id filename name reader =
                  (Inr (str_oid new_id, DatasetDoc ds),
                   Some (d(''dataset'' := d ''dataset'' @ [(new_id, DatasetDoc ds)]))) \<and>
               ds_row_count ds = length reader)) \<and>
      (\<exists>ds. upload_dataset (Some d) multipart new_id filename name [r] =
               (Inr (str_oid new_id, DatasetDoc ds),
                Some (d(''dataset'' := d ''dataset'' @ [(new_id, DatasetDoc ds)]))) \<and>
            ds_row_count ds = 1))"
proof -
  have a: "\<exists>e. upload_dataset db multipart new_id filename name reader = (Inl e, db)"
    if "reader = []"
    using that by (intro upload_dataset_failure) simp
  have b: "\<exists>ds. upload_dataset (Some d) multipart new_id filename name rs =
                  (Inr (str_oid new_id, DatasetDoc ds),
                   Some (d(''dataset'' := d ''dataset'' @ [(new_id, DatasetDoc ds)]))) \<and>
               ds_row_count ds = length rs"
    if g: "endswith (map py_lower filename) ''.csv''" "multipart" and ne: "rs \<noteq> []" for rs
  proof -
    from upload_dataset_success [OF g ne, of d new_id name] obtain cols where
      "upload_dataset (Some d) multipart new_id filename name rs =
        (Inr (str_oid new_id,
              DatasetDoc \<lparr>ds_name = display_name name filename, ds_columns = cols,
                 ds_sample = take max_preview rs, ds_row_count = length rs\<rparr>),
         Some (d(''dataset'' := d ''dataset'' @
           [(new_id, DatasetDoc \<lparr>ds_name = display_name name filename, ds_columns = cols,
                 ds_sample = take max_preview rs, ds_row_count = length rs\<rparr>)])))"
      by blast
    then show ?thesis by force
  qed
  have c: "is_client_error (HTTPException 400 ''Empty CSV or failed to parse'')"
    by (simp add: is_client_error_def)
  from a b [of reader] b [of "[r]"] c upload_dataset_empty [of filename multipart d new_id name]
  show ?thesis by simp
qed

theorem empty_input_is_rejected_witness:
  "upload_dataset (Some (\<lambda>c. [])) True [0, 1, 2, 3, 4, 5, 6, 7, 8, 9, 10, 11] ''t.csv'' None [] =
     (Inl (HTTPException 400 ''Empty CSV or failed to parse''), Some (\<lambda>c. [])) \<and>
   (\<exists>ds. upload_dataset (Some (\<lambda>c. [])) True [0, 1, 2, 3, 4, 5, 6, 7, 8, 9, 10, 11] ''t.csv'' None
            [[(''a'', PStr ''1'')]] =
          (Inr (str_oid [0, 1, 2, 3, 4, 5, 6, 7, 8, 9, 10, 11], DatasetDoc ds),
           Some ((\<lambda>c. [])(''dataset'' := (\<lambda>c. []) ''dataset'' @
              [([0, 1, 2, 3, 4, 5, 6, 7, 8, 9, 10, 11], DatasetDoc ds)]))) \<and>
          ds_row_count ds = 1)"
  using empty_input_is_rejected [where reader = "[[(''a'', PStr ''1'')]]" and filename = "''t.csv''"
      and multipart = True and d = "\<lambda>c. []" and new_id = "[0, 1, 2, 3, 4, 5, 6, 7, 8, 9, 10, 11]"
      and name = None and r = "[(''a'', PStr ''1'')]" and db = "Some (\<lambda>c. [])"]
    csv_name
  by simp

text \<open>
  C1, as the code has it: a column all of whose observed values are null or empty does
  not make the upload fail and appears among the column descriptors, with the type
  \<open>int\<close>: with no votes at all, \<open>max\<close> returns the first of the candidates
  \<open>int\<close>, \<open>float\<close>, \<open>string\<close>.
\<close>

theorem all_null_column_is_int:
  assumes "endswith (map py_lower filename) ''.csv''" and "multipart"
    and "r0 \<in> set reader" and "(k, v0) \<in> set r0"
    and "\<And>r v. r \<in> set reader \<Longrightarrow> (k, v) \<in> set r \<Longrightarrow> cell_label v = ''null''"
  shows "\<exists>ds. upload_dataset (Some d) multipart new_id filename name reader =
                (Inr (str_oid new_id, DatasetDoc ds),
                 Some (d(''dataset'' := d ''dataset'' @ [(new_id, DatasetDoc ds)]))) \<and>
              \<lparr>col_name = k, col_type = ''int''\<rparr> \<in> set (ds_columns ds)"
proof -
  from assms(3) have ne: "reader \<noteq> []" by auto
  from upload_dataset_success [OF assms(1,2) ne, of d new_id name] obtain cols tc where
    sc: "scan_rows ([], 0, []) reader = Inr (take max_preview reader, length reader, tc)"
    and nul: "\<forall>k. null_only k tc \<longrightarrow> k \<in> fst ` set tc \<longrightarrow>
             \<lparr>col_name = k, col_type = ''int''\<rparr> \<in> set cols"
    and up: "upload_dataset (Some d) multipart new_id filename name reader =
        (Inr (str_oid new_id,
              DatasetDoc \<lparr>ds_name = display_name name filename, ds_columns = cols,
                 ds_sample = take max_preview reader, ds_row_count = length reader\<rparr>),
         Some (d(''dataset'' := d ''dataset'' @
           [(new_id, DatasetDoc \<lparr>ds_name = display_name name filename, ds_columns = cols,
                 ds_sample = take max_preview reader, ds_row_count = length reader\<rparr>)])))"
    by (elim exE conjE)
  have no: "null_only k tc"
    using tally_ok_Nil null_only_Nil assms(5) sc by (rule scan_rows_null_only)
  from scan_rows_ok [OF tally_ok_Nil, of "[]" 0 reader] sc
  have "fst ` set tc = (\<Union>r\<in>set reader. fst ` set r)" by auto
  with assms(3,4) have "k \<in> fst ` set tc" by force
  with no nul have mem: "\<lparr>col_name = k, col_type = ''int''\<rparr> \<in> set cols" by blast
  let ?ds = "\<lparr>ds_name = display_name name filename, ds_columns = cols,
                 ds_sample = take max_preview reader, ds_row_count = length reader\<rparr>"
  from mem have "\<lparr>col_name = k, col_type = ''int''\<rparr> \<in> set (ds_columns ?ds)" by simp
  with up show ?thesis by (intro exI [of _ ?ds] conjI)
qed

theorem all_null_column_is_int_witness:
  "\<exists>ds. upload_dataset (Some (\<lambda>c. [])) True [0, 1, 2, 3, 4, 5, 6, 7, 8, 9, 10, 11] ''t.csv'' None
            [[(''a'', PStr ''''), (''b'', PStr ''x'')], [(''a'', PStr '' ''), (''b'', PStr ''y'')]] =
          (Inr (str_oid [0, 1, 2, 3, 4, 5, 6, 7, 8, 9, 10, 11], DatasetDoc ds),
           Some ((\<lambda>c. [])(''dataset'' := (\<lambda>c. []) ''dataset'' @
              [([0, 1, 2, 3, 4, 5, 6, 7, 8, 9, 10, 11], DatasetDoc ds)]))) \<and>
          \<lparr>col_name = ''a'', col_type = ''int''\<rparr> \<in> set (ds_columns ds)"
proof (rule all_null_column_is_int [where ?r0.0 = "[(''a'', PStr ''''), (''b'', PStr ''x'')]" and ?v0.0 = "PStr ''''"])
  show "endswith (map py_lower ''t.csv'') ''.csv''" by (rule csv_name)
  show True ..
  show "[(''a'', PStr ''''), (''b'', PStr ''x'')] \<in>
        set [[(''a'', PStr ''''), (''b'', PStr ''x'')], [(''a'', PStr '' ''), (''b'', PStr ''y'')]]"
    by simp
  show "(''a'', PStr '''') \<in> set [(''a'', PStr ''''), (''b'', PStr ''x'')]" by simp
  have 1: "cell_label (PStr '''') = ''null''" by code_simp
  have 2: "cell_label (PStr '' '') = ''null''" by code_simp
  show "cell_label v = ''null''"
    if "r \<in> set [[(''a'', PStr ''''), (''b'', PStr ''x'')], [(''a'', PStr '' ''), (''b'', PStr ''y'')]]"
      and "(''a'', v) \<in> set r" for r v
    using that 1 2 by auto
qed

text \<open>
  The type of such a column is not \<open>string\<close>: a file with the one column \<open>a\<close>
  and one row whose cell is empty gets the descriptor \<open>a: int\<close>.
\<close>

theorem all_null_column_not_string:
  "cell_label (PStr '''') = ''null'' \<and>
   fst (upload_dataset (Some (\<lambda>c. [])) True [0, 1, 2, 3, 4, 5, 6, 7, 8, 9, 10, 11] ''t.csv'' None
         [[(''a'', PStr '''')]]) =
     Inr (''000102030405060708090a0b'',
          DatasetDoc \<lparr>ds_name = ''t.csv'',
            ds_columns = [\<lparr>col_name = ''a'', col_type = ''int''\<rparr>],
            ds_sample = [[(''a'', PStr '''')]], ds_row_count = 1\<rparr>)"
  by code_simp

section \<open>Properties of the dataset lookup and of chart creation\<close>

lemma oid_example: "ObjectId ''000102030405060708090a0b'' = Inr [0, 1, 2, 3, 4, 5, 6, 7, 8, 9, 10, 11]"
  by code_simp

text \<open>
  C8, as the code has it: for an id string that \<open>ObjectId\<close> accepts, with the store
  configured and \<open>bson\<close> available, the lookup either returns the stored document with
  that id (serialised) or fails with 404 \<open>Dataset not found\<close>.
\<close>

theorem get_dataset_found_or_not_found:
  assumes "ObjectId dataset_id = Inr i"
  shows "(\<exists>doc. map_of (d ''dataset'') i = Some doc \<and>
            get_dataset (Some d) True dataset_id = Inr (str_oid i, doc)) \<or>
         (map_of (d ''dataset'') i = None \<and>
            get_dataset (Some d) True dataset_id = Inl (HTTPException 404 ''Dataset not found''))"
  using assms
  by (cases "map_of (d ''dataset'') i")
     (simp_all add: get_dataset_def find_one_def serialize_doc_def)

theorem get_dataset_found_or_not_found_witness:
  "get_dataset
     (Some ((\<lambda>c. [])(''dataset'' :=
        [([0, 1, 2, 3, 4, 5, 6, 7, 8, 9, 10, 11],
          DatasetDoc \<lparr>ds_name = ''t.csv'', ds_columns = [], ds_sample = [], ds_row_count = 1\<rparr>)])))
     True ''000102030405060708090a0b'' =
   Inr (''000102030405060708090a0b'',
        DatasetDoc \<lparr>ds_name = ''t.csv'', ds_columns = [], ds_sample = [], ds_row_count = 1\<rparr>) \<and>
   get_dataset (Some (\<lambda>c. [])) True ''000102030405060708090a0b'' =
     Inl (HTTPException 404 ''Dataset not found'')"
proof -
  have s: "str_oid [0, 1, 2, 3, 4, 5, 6, 7, 8, 9, 10, 11] = ''000102030405060708090a0b''"
    by code_simp
  from get_dataset_found_or_not_found [OF oid_example,
      of "(\<lambda>c. [])(''dataset'' :=
        [([0, 1, 2, 3, 4, 5, 6, 7, 8, 9, 10, 11],
          DatasetDoc \<lparr>ds_name = ''t.csv'', ds_columns = [], ds_sample = [], ds_row_count = 1\<rparr>)])"]
    get_dataset_found_or_not_found [OF oid_example, of "\<lambda>c. []"] s
  show ?thesis by simp
qed

text \<open>
  For an id string that \<open>ObjectId\<close> refuses there is a third outcome: the lookup
  raises \<open>InvalidId\<close>, which is neither the record nor a not-found error.
\<close>

theorem get_dataset_malformed_id:
  "get_dataset (Some (\<lambda>c. [])) True ''abc'' = Inl InvalidId"
  by code_simp

text \<open>
  C7, as the code has it: a chart-creation request that fails, for whatever reason,
  leaves the database as it was; when its \<open>dataset_id\<close> is a well-formed object id of
  no stored dataset, the failure is the client error 400 \<open>Related dataset not found\<close>;
  when it is the id of a stored dataset, the chart is added to the collection \<open>chart\<close>
  and returned with the generated id.
\<close>

theorem save_chart_checks_dataset:
  "(\<forall>e. fst (save_chart db bson new_id payload) = Inl e \<longrightarrow>
        snd (save_chart db bson new_id payload) = db) \<and>
   (ObjectId (ch_dataset_id payload) = Inr i \<and> map_of (d ''dataset'') i = None \<longrightarrow>
      save_chart (Some d) True new_id payload =
        (Inl (HTTPException 400 ''Related dataset not found''), Some d) \<and>
      is_client_error (HTTPException 400 ''Related dataset not found'')) \<and>
   (ObjectId (ch_dataset_id payload) = Inr i \<and> map_of (d ''dataset'') i = Some doc \<longrightarrow>
      save_chart (Some d) True new_id payload =
        (Inr (str_oid new_id, ChartDoc payload),
         Some (d(''chart'' := d ''chart'' @ [(new_id, ChartDoc payload)]))))"
  by (auto simp: save_chart_def find_one_def create_document_def is_client_error_def
      split: option.splits sum.splits)

theorem save_chart_checks_dataset_witness:
  "save_chart (Some (\<lambda>c. [])) True [1, 1, 1, 1, 1, 1, 1, 1, 1, 1, 1, 1]
     \<lparr>ch_dataset_id = ''000102030405060708090a0b'', ch_title = ''t'', ch_chart_type = ''bar'',
      ch_x = ''a'', ch_y = None, ch_agg = None, ch_options = []\<rparr> =
     (Inl (HTTPException 400 ''Related dataset not found''), Some (\<lambda>c. [])) \<and>
   save_chart
     (Some ((\<lambda>c. [])(''dataset'' :=
        [([0, 1, 2, 3, 4, 5, 6, 7, 8, 9, 10, 11],
          DatasetDoc \<lparr>ds_name = ''t.csv'', ds_columns = [], ds_sample = [], ds_row_count = 1\<rparr>)])))
     True [1, 1, 1, 1, 1, 1, 1, 1, 1, 1, 1, 1]
     \<lparr>ch_dataset_id = ''000102030405060708090a0b'', ch_title = ''t'', ch_chart_type = ''bar'',
      ch_x = ''a'', ch_y = None, ch_agg = None, ch_options = []\<rparr> =
     (Inr (str_oid [1, 1, 1, 1, 1, 1, 1, 1, 1, 1, 1, 1],
           ChartDoc \<lparr>ch_dataset_id = ''000102030405060708090a0b'', ch_title = ''t'',
             ch_chart_type = ''bar'', ch_x = ''a'', ch_y = None, ch_agg = None, ch_options = []\<rparr>),
      Some (((\<lambda>c. [])(''dataset'' :=
        [([0, 1, 2, 3, 4, 5, 6, 7, 8, 9, 10, 11],
          DatasetDoc \<lparr>ds_name = ''t.csv'', ds_columns = [], ds_sample = [], ds_row_count = 1\<rparr>)]))
        (''chart'' := ((\<lambda>c. [])(''dataset'' :=
        [([0, 1, 2, 3, 4, 5, 6, 7, 8, 9, 10, 11],
          DatasetDoc \<lparr>ds_name = ''t.csv'', ds_columns = [], ds_sample = [], ds_row_count = 1\<rparr>)]))
          ''chart'' @
          [([1, 1, 1, 1, 1, 1, 1, 1, 1, 1, 1, 1],
            ChartDoc \<lparr>ch_dataset_id = ''000102030405060708090a0b'', ch_title = ''t'',
             ch_chart_type = ''bar'', ch_x = ''a'', ch_y = None, ch_agg = None,
             ch_options = []\<rparr>)])))"
proof -
  let ?p = "\<lparr>ch_dataset_id = ''000102030405060708090a0b'', ch_title = ''t'', ch_chart_type = ''bar'',
      ch_x = ''a'', ch_y = None, ch_agg = None, ch_options = []\<rparr>"
  let ?ds = "DatasetDoc \<lparr>ds_name = ''t.csv'', ds_columns = [], ds_sample = [], ds_row_count = 1\<rparr>"
  let ?d = "(\<lambda>c. [])(''dataset'' := [([0, 1, 2, 3, 4, 5, 6, 7, 8, 9, 10, 11], ?ds)])"
  have o: "ObjectId (ch_dataset_id ?p) = Inr [0, 1, 2, 3, 4, 5, 6, 7, 8, 9, 10, 11]"
    using oid_example by simp
  have m1: "map_of ((\<lambda>c. []) ''dataset'') [0, 1, 2, 3, 4, 5, 6, 7, 8, 9, 10, 11 :: nat] = (None :: document option)"
    by simp
  have m2: "map_of (?d ''dataset'') [0, 1, 2, 3, 4, 5, 6, 7, 8, 9, 10, 11] = Some ?ds"
    by simp
  from save_chart_checks_dataset [where payload = ?p and d = "\<lambda>c. []"
      and i = "[0, 1, 2, 3, 4, 5, 6, 7, 8, 9, 10, 11]" and new_id = "[1, 1, 1, 1, 1, 1, 1, 1, 1, 1, 1, 1]"] o m1
  have a: "save_chart (Some (\<lambda>c. [])) True [1, 1, 1, 1, 1, 1, 1, 1, 1, 1, 1, 1] ?p =
     (Inl (HTTPException 400 ''Related dataset not found''), Some (\<lambda>c. []))"
    by blast
  from save_chart_checks_dataset [where payload = ?p and d = ?d and doc = ?ds
      and i = "[0, 1, 2, 3, 4, 5, 6, 7, 8, 9, 10, 11]" and new_id = "[1, 1, 1, 1, 1, 1, 1, 1, 1, 1, 1, 1]"] o m2
  have b: "save_chart (Some ?d) True [1, 1, 1, 1, 1, 1, 1, 1, 1, 1, 1, 1] ?p =
     (Inr (str_oid [1, 1, 1, 1, 1, 1, 1, 1, 1, 1, 1, 1], ChartDoc ?p),
      Some (?d(''chart'' := ?d ''chart'' @ [([1, 1, 1, 1, 1, 1, 1, 1, 1, 1, 1, 1], ChartDoc ?p)])))"
    by blast
  from a b show ?thesis by (rule conjI)
qed

text \<open>
  A request whose \<open>dataset_id\<close> is not a well-formed object id references no stored
  dataset, and it fails with \<open>InvalidId\<close>, which is not a client error.
\<close>

theorem save_chart_malformed_id:
  "save_chart (Some (\<lambda>c. [])) True [0, 1, 2, 3, 4, 5, 6, 7, 8, 9, 10, 11]
     \<lparr>ch_dataset_id = ''abc'', ch_title = ''t'', ch_chart_type = ''bar'', ch_x = ''a'',
      ch_y = None, ch_agg = None, ch_options = []\<rparr> = (Inl InvalidId, Some (\<lambda>c. [])) \<and>
   \<not> is_client_error InvalidId"
  by (simp add: save_chart_def ObjectId_def is_client_error_def)

section \<open>Properties of the insight engine\<close>

lemma numeric_values_parsed:
  "numeric_values ops col vals sample = vals @ parsed_values ops col sample"
  by (induction sample arbitrary: vals)
     (auto simp: parsed_values_def Let_def split: sum.splits)



lemma numeric_details_step:
  "numeric_details ops sample details (col # cols) =
     numeric_details ops sample (details @ numeric_line ops col (parsed_values ops col sample)) cols"
  by (cases "parsed_values ops col sample")
     (simp_all add: numeric_values_parsed py_min_def py_max_def float_div_def average_def
        smallest_def largest_def split: pyfloat.splits)

lemma numeric_details_all:
  "numeric_details ops sample details cols =
     Inr (details @ concat (map (\<lambda>col. numeric_line ops col (parsed_values ops col sample)) cols))"
  by (induction cols arbitrary: details)
     (simp_all add: numeric_details_step del: numeric_details.simps(2))



lemma first_occ_snoc:
  "first_occ (xs @ [x]) = (if x \<in> set xs then first_occ xs else first_occ xs @ [x])"
  by (simp add: first_occ_def)

lemma set_first_occ [simp]: "set (first_occ xs) = set xs"
  by (simp add: first_occ_def)

lemma distinct_first_occ [simp]: "distinct (first_occ xs)"
  by (simp add: first_occ_def)

lemma find_snoc:
  "find Q (xs @ [x]) = (case find Q xs of None \<Rightarrow> if Q x then Some x else None | Some y \<Rightarrow> Some y)"
  by (induction xs) auto

lemma find_first_occ: "find Q (first_occ xs) = find Q xs"
proof (induction xs rule: rev_induct)
  case Nil
  then show ?case by (simp add: first_occ_def)
next
  case (snoc x xs)
  show ?case
  proof (cases "x \<in> set xs")
    case True
    then have "find Q xs = None \<Longrightarrow> \<not> Q x"
      by (auto simp: find_None_iff)
    with True snoc show ?thesis
      by (auto simp: first_occ_snoc find_snoc split: option.splits)
  next
    case False
    with snoc show ?thesis
      by (simp add: first_occ_snoc find_snoc)
  qed
qed

lemma update_tabulated:
  "distinct ks \<Longrightarrow>
   AList.update x v (map (\<lambda>k. (k, f k)) ks) =
     (if x \<in> set ks then map (\<lambda>k. (k, if k = x then v else f k)) ks
      else map (\<lambda>k. (k, f k)) ks @ [(x, v)])"
  by (induction ks) auto

lemma map_of_tabulated:
  "map_of (map (\<lambda>k. (k, f k)) ks) x = (if x \<in> set ks then Some (f x) else None)"
  by (induction ks) auto

lemma Counter_tabulated:
  "Counter xs = map (\<lambda>k. (k, count_list xs k)) (first_occ xs)"
proof (induction xs rule: rev_induct)
  case Nil
  then show ?case by (simp add: Counter_def first_occ_def)
next
  case (snoc x xs)
  have "Counter (xs @ [x]) = counter_add (Counter xs) x"
    by (simp add: Counter_def)
  also have "\<dots> = counter_add (map (\<lambda>k. (k, count_list xs k)) (first_occ xs)) x"
    by (simp add: snoc)
  also have "\<dots> = map (\<lambda>k. (k, count_list (xs @ [x]) k)) (first_occ (xs @ [x]))"
    by (auto simp: counter_add_def map_of_tabulated update_tabulated first_occ_snoc)
  finally show ?case .
qed

lemma first_max_keys:
  "find (\<lambda>k. \<forall>k'\<in>set (b # rest). f k' \<le> f k) (b # rest) =
     Some (foldl (\<lambda>b k. if (f b :: nat) < f k then k else b) b rest)"
proof (induction rest arbitrary: b)
  case Nil
  then show ?case by simp
next
  case (Cons k rest)
  show ?case
  proof (cases "f b < f k")
    case True
    have "find (\<lambda>x. \<forall>k'\<in>set (b # k # rest). f k' \<le> f x) (b # k # rest) =
          find (\<lambda>x. \<forall>k'\<in>set (b # k # rest). f k' \<le> f x) (k # rest)"
      using True by auto
    also have "\<dots> = find (\<lambda>x. \<forall>k'\<in>set (k # rest). f k' \<le> f x) (k # rest)"
      using True by (intro find_cong) auto
    also have "\<dots> = Some (foldl (\<lambda>b k. if f b < f k then k else b) k rest)"
      by (rule Cons.IH)
    finally show ?thesis using True by simp
  next
    case False
    have "find (\<lambda>x. \<forall>k'\<in>set (b # k # rest). f k' \<le> f x) (b # k # rest) =
          find (\<lambda>x. \<forall>k'\<in>set (b # k # rest). f k' \<le> f x) (b # rest)"
      using False by auto
    also have "\<dots> = find (\<lambda>x. \<forall>k'\<in>set (b # rest). f k' \<le> f x) (b # rest)"
      using False by (intro find_cong) auto
    also have "\<dots> = Some (foldl (\<lambda>b k. if f b < f k then k else b) b rest)"
      by (rule Cons.IH)
    finally show ?thesis using False by simp
  qed
qed

lemma foldl_tabulated:
  "foldl (\<lambda>best j. if snd best < snd j then j else best) (b, f b) (map (\<lambda>k. (k, f k)) rest) =
     (let m = foldl (\<lambda>b k. if (f b :: nat) < f k then k else b) b rest in (m, f m))"
  by (induction rest arbitrary: b) (auto simp: Let_def)

lemma most_common_tabulated:
  "most_common_1 (map (\<lambda>k. (k, f k)) ks) =
     (case find (\<lambda>k. \<forall>k'\<in>set ks. f k' \<le> f k) ks of None \<Rightarrow> [] | Some m \<Rightarrow> [(m, f m)])"
proof (cases ks)
  case Nil
  then show ?thesis by (simp add: most_common_1_def)
next
  case (Cons b rest)
  show ?thesis
    unfolding Cons first_max_keys
    by (simp add: most_common_1_def foldl_tabulated Let_def)
qed

lemma most_common_Counter:
  "most_common_1 (Counter vals) =
     (case most_frequent vals of None \<Rightarrow> [] | Some m \<Rightarrow> [(m, count_list vals m)])"
proof -
  have "find (\<lambda>k. \<forall>k'\<in>set (first_occ vals). count_list vals k' \<le> count_list vals k) (first_occ vals)
        = find (\<lambda>k. \<forall>k'\<in>set vals. count_list vals k' \<le> count_list vals k) vals"
    by (simp add: find_first_occ)
  then show ?thesis
    by (simp add: Counter_tabulated most_common_tabulated most_frequent_def list_all_iff)
qed

lemma most_frequent_None: "most_frequent vals = None \<longleftrightarrow> vals = []"
proof
  assume "most_frequent vals = None"
  show "vals = []"
  proof (rule ccontr)
    assume "vals \<noteq> []"
    then obtain b rest where "vals = b # rest" by (cases vals) auto
    with first_max_keys [of b rest "count_list vals"] \<open>most_frequent vals = None\<close>
    show False by (simp add: most_frequent_def list_all_iff)
  qed
next
  assume "vals = []"
  then show "most_frequent vals = None" by (simp add: most_frequent_def)
qed

lemma Counter_Nil_iff: "Counter vals = [] \<longleftrightarrow> vals = []"
  by (auto simp: Counter_tabulated first_occ_def)

lemma categorical_details_step:
  "categorical_details sample details (col # cols) =
     categorical_details sample
       (details @ categorical_line col (categorical_values col sample)) cols"
proof (cases "categorical_values col sample = []")
  case True
  then show ?thesis
    by (simp add: Counter_Nil_iff categorical_line_def most_frequent_def)
next
  case False
  then obtain m where m: "most_frequent (categorical_values col sample) = Some m"
    using most_frequent_None [of "categorical_values col sample"] by auto
  with False show ?thesis
    by (simp add: Counter_Nil_iff categorical_line_def most_common_Counter)
qed

lemma categorical_details_all:
  "categorical_details sample details cols =
     Inr (details @ concat (map (\<lambda>col. categorical_line col (categorical_values col sample)) cols))"
  by (induction cols arbitrary: details)
     (simp_all add: categorical_details_step del: categorical_details.simps(2))

text \<open>
  C6: for each categorical column in turn the engine counts the values of the sample
  that are neither \<open>None\<close> nor the empty string.  With no such value it adds no line; otherwise it
  adds the line \<open>col: most frequent value is 'V' (N occurrences in sample)\<close> for the
  value \<open>V\<close> with the highest count \<open>N\<close>, and among several such values for the one met
  first: \<open>a\<close> for the values \<open>a\<close>, \<open>b\<close>.
\<close>

theorem categorical_column_line:
  "categorical_details sample details cols =
     Inr (details @
          concat (map (\<lambda>col. categorical_line col (categorical_values col sample)) cols)) \<and>
   categorical_line col vals =
     (case most_frequent vals of
        None \<Rightarrow> []
      | Some v \<Rightarrow>
          [col @ '': most frequent value is '' @ [CHR 0x27] @ v @ [CHR 0x27] @
           '' ('' @ str_nat (count_list vals v) @ '' occurrences in sample)'']) \<and>
   most_frequent vals =
     find (\<lambda>v. list_all (\<lambda>w. count_list vals w \<le> count_list vals v) vals) vals \<and>
   (most_frequent vals = None) = (vals = []) \<and>
   most_frequent [''a'', ''b''] = Some ''a'' \<and>
   categorical_line ''c'' [''a'', ''b'', ''a''] =
     [''c: most frequent value is '' @ [CHR 0x27] @ ''a'' @ [CHR 0x27] @
      '' (2 occurrences in sample)'']"
proof -
  have 1: "categorical_details sample details cols =
     Inr (details @
          concat (map (\<lambda>col. categorical_line col (categorical_values col sample)) cols))"
    by (rule categorical_details_all)
  have 2: "most_frequent [''a'', ''b''] = Some ''a''" by code_simp
  have 3: "categorical_line ''c'' [''a'', ''b'', ''a''] =
     [''c: most frequent value is '' @ [CHR 0x27] @ ''a'' @ [CHR 0x27] @
      '' (2 occurrences in sample)'']" by code_simp
  from 1 2 3 most_frequent_None [of vals] show ?thesis
    by (simp add: categorical_line_def most_frequent_def)
qed

text \<open>
  C10: the categorical count leaves out exactly the values \<open>None\<close> and \<open>""\<close>.  A
  blank such as \<open>" "\<close> is counted there, whereas the numeric path skips it; and every
  counted value goes through \<open>str()\<close>, so that the number 1 and the string \<open>"1"\<close> are
  one value with two occurrences.
\<close>

theorem categorical_counts_all_but_none_and_empty:
  "categorical_values col sample =
     map py_str (filter (\<lambda>v. v \<noteq> PNone \<and> v \<noteq> PStr '''') (map (\<lambda>r. dict_get r col) sample)) \<and>
   categorical_values ''c'' [[(''c'', PStr '' '')]] = ['' ''] \<and>
   categorical_details [[(''c'', PStr '' '')]] [] [''c''] =
     Inr [''c: most frequent value is '' @ [CHR 0x27] @ '' '' @ [CHR 0x27] @
          '' (1 occurrences in sample)''] \<and>
   numeric_values ops ''c'' [] [[(''c'', PStr '' '')]] = [] \<and>
   numeric_details ops [[(''c'', PStr '' '')]] [] [''c''] = Inr [] \<and>
   py_str (PInt 1) = py_str (PStr ''1'') \<and>
   Counter (categorical_values ''c'' [[(''c'', PInt 1)], [(''c'', PStr ''1'')]]) = [(''1'', 2)]"
proof -
  have 1: "categorical_values col sample =
     map py_str (filter (\<lambda>v. v \<noteq> PNone \<and> v \<noteq> PStr '''') (map (\<lambda>r. dict_get r col) sample))"
    by (simp add: categorical_values_def filter_map comp_def)
  have 2: "categorical_values ''c'' [[(''c'', PStr '' '')]] = ['' '']" by code_simp
  have 3: "categorical_details [[(''c'', PStr '' '')]] [] [''c''] =
     Inr [''c: most frequent value is '' @ [CHR 0x27] @ '' '' @ [CHR 0x27] @
          '' (1 occurrences in sample)'']" by code_simp
  have blank: "py_strip '' '' = ''''" by code_simp
  have 4: "numeric_values ops ''c'' [] [[(''c'', PStr '' '')]] = []"
    using blank by (simp add: dict_get_def)
  have 5: "numeric_details ops [[(''c'', PStr '' '')]] [] [''c''] = Inr []"
    using 4 by simp
  have 6: "py_str (PInt 1) = py_str (PStr ''1'')" by code_simp
  have 7: "Counter (categorical_values ''c'' [[(''c'', PInt 1)], [(''c'', PStr ''1'')]]) = [(''1'', 2)]"
    by code_simp
  from 1 2 3 4 5 6 7 show ?thesis by blast
qed

text \<open>
  The whole of \<open>generate_insights\<close> on a stored dataset: the lines of the columns typed
  \<open>int\<close> or \<open>float\<close>, then those of the columns typed \<open>string\<close>, under the fixed
  summary.
\<close>

lemma generate_insights_details:
  assumes "ObjectId dataset_id = Inr i" and "map_of (d ''dataset'') i = Some (DatasetDoc ds)"
  shows "fst (generate_insights ops (Some d) True new_id dataset_id) =
     Inr (str_oid new_id,
          InsightDoc
            \<lparr>in_dataset_id = dataset_id,
             in_summary = ''Quick AI-style summary based on your data sample.'',
             in_details =
               concat (map (\<lambda>c. numeric_line ops (col_name c)
                                    (parsed_values ops (col_name c) (ds_sample ds)))
                         (filter (\<lambda>c. col_type c = ''int'' \<or> col_type c = ''float'')
                            (ds_columns ds))) @
               concat (map (\<lambda>c. categorical_line (col_name c)
                                    (categorical_values (col_name c) (ds_sample ds)))
                         (filter (\<lambda>c. col_type c = ''string'') (ds_columns ds)))\<rparr>)"
  using assms
  by (simp add: generate_insights_def find_one_def doc_sample_def doc_columns_def
      numeric_details_all categorical_details_all create_document_def Let_def comp_def
      map_concat)

end
